theory Spec2Isabelle
  imports Main "HOL-Library.Word"
begin

unbundle bit_operations_syntax

section \<open>JavaScript strings\<close>

text \<open>
  A JavaScript string is a sequence of 16-bit code units. \<open>js\<close> embeds an ASCII literal
  of the source text, so that \<open>js ''message''\<close> is the string \<^verbatim>\<open>'message'\<close> of App.tsx.
\<close>

type_synonym code_unit = "16 word"
type_synonym jsstring = "code_unit list"

definition js :: "string \<Rightarrow> jsstring" where
  "js s = map (\<lambda>c. of_nat (of_char c)) s"

text \<open>
  \<^verbatim>\<open>String.prototype.trim\<close> removes the code units of WhiteSpace and LineTerminator
  (ECMA-262) from both ends.
\<close>

definition is_trim_space :: "code_unit \<Rightarrow> bool" where
  "is_trim_space c \<longleftrightarrow>
     c = 0x09 \<or> c = 0x0A \<or> c = 0x0B \<or> c = 0x0C \<or> c = 0x0D \<or> c = 0x20 \<or> c = 0xA0 \<or>
     c = 0x1680 \<or> (0x2000 \<le> c \<and> c \<le> 0x200A) \<or> c = 0x2028 \<or> c = 0x2029 \<or>
     c = 0x202F \<or> c = 0x205F \<or> c = 0x3000 \<or> c = 0xFEFF"

definition trim :: "jsstring \<Rightarrow> jsstring" where
  "trim s = rev (dropWhile is_trim_space (rev (dropWhile is_trim_space s)))"

text \<open>\<^verbatim>\<open>s.substr(start, len)\<close> for a non-negative \<open>start\<close>.\<close>

definition substr :: "nat \<Rightarrow> nat \<Rightarrow> jsstring \<Rightarrow> jsstring" where
  "substr start len s = take len (drop start s)"

text \<open>
  \<^verbatim>\<open>Number.prototype.toString()\<close> on an integer such as the result of \<^verbatim>\<open>Date.now()\<close>:
  its decimal digits, with a minus sign when negative.
\<close>

function decimal :: "int \<Rightarrow> jsstring" where
  "decimal n =
     (if n < 10 then [of_int (48 + n)] else decimal (n div 10) @ [of_int (48 + n mod 10)])"
  by pat_completeness auto
termination
  by (relation "measure nat") auto

declare decimal.simps [simp del]

definition toString :: "int \<Rightarrow> jsstring" where
  "toString i = (if i < 0 then 0x2D # decimal (- i) else decimal i)"

section \<open>JavaScript values\<close>

text \<open>
  The result of \<^verbatim>\<open>JSON.parse\<close> is cast to \<^verbatim>\<open>WSMessage\<close> without a check, so the
  handler sees whatever value the frame holds. A number is kept as its exact decimal
  value \<open>m * 10 ^ e\<close>.
\<close>

datatype js_value =
    JUndefined
  | JNull
  | JBool bool
  | JNum int int
  | JStr jsstring
  | JArr "js_value list"
  | JObj "(jsstring \<times> js_value) list"

datatype js_error = SyntaxError | TypeError

text \<open>
  ToBoolean. A JSON number is falsy exactly when its double is zero: the decimal is
  zero, or its magnitude is at most \<open>2 ^ -1075\<close>, half the least positive double.
\<close>

definition number_nonzero :: "int \<Rightarrow> int \<Rightarrow> bool" where
  "number_nonzero m e =
     (if 0 \<le> e then m \<noteq> 0 else 10 ^ nat (- e) < \<bar>m\<bar> * 2 ^ 1075)"

fun truthy :: "js_value \<Rightarrow> bool" where
  "truthy JUndefined = False"
| "truthy JNull = False"
| "truthy (JBool b) = b"
| "truthy (JNum m e) = number_nonzero m e"
| "truthy (JStr s) = (s \<noteq> [])"
| "truthy (JArr vs) = True"
| "truthy (JObj kvs) = True"

text \<open>The operator \<^verbatim>\<open>a || b\<close>.\<close>

definition js_or :: "js_value \<Rightarrow> js_value \<Rightarrow> js_value" where
  "js_or a b = (if truthy a then a else b)"

text \<open>
  Reading a property of a value other than \<^verbatim>\<open>null\<close>. An object made by
  \<^verbatim>\<open>JSON.parse\<close> has its members as own properties, the last of two equal keys
  winning. The handler reads only \<^verbatim>\<open>type\<close>, \<^verbatim>\<open>content\<close>, \<^verbatim>\<open>sender\<close>,
  \<^verbatim>\<open>timestamp\<close> and \<^verbatim>\<open>typing\<close>, which no built-in prototype defines, so every
  other read gives \<^verbatim>\<open>undefined\<close>.
\<close>

fun get_prop :: "js_value \<Rightarrow> jsstring \<Rightarrow> js_value" where
  "get_prop (JObj kvs) k = (case map_of (rev kvs) k of Some v \<Rightarrow> v | None \<Rightarrow> JUndefined)"
| "get_prop v k = JUndefined"

section \<open>JSON.parse\<close>

text \<open>
  The host's \<^verbatim>\<open>JSON.parse\<close> on a string, after the JSON grammar of ECMA-404:
  a lexer from code units to tokens and a pushdown parser over the tokens.
\<close>

datatype token =
    TLBrace | TRBrace | TLBracket | TRBracket | TColon | TComma
  | TString jsstring
  | TNumber int int
  | TTrue | TFalse | TNull

definition is_json_space :: "code_unit \<Rightarrow> bool" where
  "is_json_space c \<longleftrightarrow> c = 0x20 \<or> c = 0x09 \<or> c = 0x0A \<or> c = 0x0D"

definition is_digit :: "code_unit \<Rightarrow> bool" where
  "is_digit c \<longleftrightarrow> 0x30 \<le> c \<and> c \<le> 0x39"

definition hex_value :: "code_unit \<Rightarrow> nat option" where
  "hex_value c =
     (if 0x30 \<le> c \<and> c \<le> 0x39 then Some (unat c - 48)
      else if 0x41 \<le> c \<and> c \<le> 0x46 then Some (unat c - 55)
      else if 0x61 \<le> c \<and> c \<le> 0x66 then Some (unat c - 87)
      else None)"

definition hex4 :: "code_unit \<Rightarrow> code_unit \<Rightarrow> code_unit \<Rightarrow> code_unit \<Rightarrow> code_unit option" where
  "hex4 a b c d =
     (case (hex_value a, hex_value b, hex_value c, hex_value d) of
        (Some p, Some q, Some r, Some s) \<Rightarrow> Some (of_nat (((p * 16 + q) * 16 + r) * 16 + s))
      | _ \<Rightarrow> None)"

text \<open>The character a one-letter escape stands for.\<close>

definition unescape :: "code_unit \<Rightarrow> code_unit option" where
  "unescape e =
     (if e = 0x22 then Some 0x22
      else if e = 0x5C then Some 0x5C
      else if e = 0x2F then Some 0x2F
      else if e = 0x62 then Some 0x08
      else if e = 0x66 then Some 0x0C
      else if e = 0x6E then Some 0x0A
      else if e = 0x72 then Some 0x0D
      else if e = 0x74 then Some 0x09
      else None)"

text \<open>
  \<open>scan_string cs\<close> reads a string body up to its closing quote and returns the
  decoded string with the number of code units read, the closing quote included.
\<close>

fun scan_string :: "jsstring \<Rightarrow> (jsstring \<times> nat) option" where
  "scan_string [] = None"
| "scan_string (c # cs) =
     (if c = 0x22 then Some ([], 1)
      else if c = 0x5C then
        (case cs of
           [] \<Rightarrow> None
         | e # cs' \<Rightarrow>
             if e = 0x75 then
               (case cs' of
                  h1 # h2 # h3 # h4 # cs'' \<Rightarrow>
                    (case hex4 h1 h2 h3 h4 of
                       None \<Rightarrow> None
                     | Some u \<Rightarrow> map_option (\<lambda>(s, n). (u # s, n + 6)) (scan_string cs''))
                | _ \<Rightarrow> None)
             else
               (case unescape e of
                  None \<Rightarrow> None
                | Some u \<Rightarrow> map_option (\<lambda>(s, n). (u # s, n + 2)) (scan_string cs')))
      else if c < 0x20 then None
      else map_option (\<lambda>(s, n). (c # s, n + 1)) (scan_string cs))"

definition digits_value :: "jsstring \<Rightarrow> int" where
  "digits_value ds = foldl (\<lambda>a d. a * 10 + (uint d - 48)) 0 ds"

text \<open>
  \<open>scan_number cs\<close> reads the longest number at the head of \<open>cs\<close>: an optional minus,
  an integer part without a leading zero, an optional fraction and an optional
  exponent. It returns mantissa, decimal exponent and the number of code units read.
\<close>

definition scan_number :: "jsstring \<Rightarrow> ((int \<times> int) \<times> nat) option" where
  "scan_number cs =
     (let neg = (cs \<noteq> [] \<and> hd cs = 0x2D);
          cs1 = (if neg then tl cs else cs);
          ip = (if cs1 \<noteq> [] \<and> hd cs1 = 0x30 then [0x30] else takeWhile is_digit cs1);
          cs2 = drop (length ip) cs1;
          has_frac = (cs2 \<noteq> [] \<and> hd cs2 = 0x2E);
          fp = (if has_frac then takeWhile is_digit (tl cs2) else []);
          cs3 = (if has_frac then drop (length fp) (tl cs2) else cs2);
          has_exp = (cs3 \<noteq> [] \<and> (hd cs3 = 0x65 \<or> hd cs3 = 0x45));
          cs4 = (if has_exp then tl cs3 else cs3);
          has_sign = (has_exp \<and> cs4 \<noteq> [] \<and> (hd cs4 = 0x2B \<or> hd cs4 = 0x2D));
          eneg = (has_sign \<and> hd cs4 = 0x2D);
          cs5 = (if has_sign then tl cs4 else cs4);
          ep = (if has_exp then takeWhile is_digit cs5 else []);
          m = digits_value (ip @ fp);
          x = digits_value ep
      in if ip = [] \<or> (has_frac \<and> fp = []) \<or> (has_exp \<and> ep = []) then None
         else Some ((if neg then - m else m, (if eneg then - x else x) - int (length fp)),
                    (if neg then 1 else 0) + length ip + (if has_frac then 1 + length fp else 0)
                    + (if has_exp then 1 + (if has_sign then 1 else 0) + length ep else 0)))"

function lex :: "jsstring \<Rightarrow> token list option" where
  "lex [] = Some []"
| "lex (c # cs) =
     (if is_json_space c then lex cs
      else if c = 0x7B then map_option ((#) TLBrace) (lex cs)
      else if c = 0x7D then map_option ((#) TRBrace) (lex cs)
      else if c = 0x5B then map_option ((#) TLBracket) (lex cs)
      else if c = 0x5D then map_option ((#) TRBracket) (lex cs)
      else if c = 0x3A then map_option ((#) TColon) (lex cs)
      else if c = 0x2C then map_option ((#) TComma) (lex cs)
      else if c = 0x22 then
        (case scan_string cs of
           None \<Rightarrow> None
         | Some (s, n) \<Rightarrow> map_option ((#) (TString s)) (lex (drop n cs)))
      else if c = 0x2D \<or> is_digit c then
        (case scan_number (c # cs) of
           None \<Rightarrow> None
         | Some ((m, e), n) \<Rightarrow> map_option ((#) (TNumber m e)) (lex (drop (n - 1) cs)))
      else if take 4 (c # cs) = js ''true'' then map_option ((#) TTrue) (lex (drop 3 cs))
      else if take 5 (c # cs) = js ''false'' then map_option ((#) TFalse) (lex (drop 4 cs))
      else if take 4 (c # cs) = js ''null'' then map_option ((#) TNull) (lex (drop 3 cs))
      else None)"
  by pat_completeness auto
termination
  by (relation "measure length") auto

declare lex.simps [simp del]

text \<open>
  The parser keeps a stack of the arrays and objects that are open, and what the
  grammar allows next.
\<close>

datatype frame =
    InArray "js_value list"
  | InObject "(jsstring \<times> js_value) list" "jsstring option"

datatype expect =
    ExpValue
  | ExpValueOrClose
  | ExpKeyOrClose
  | ExpKey
  | ExpColon
  | ExpCommaOrClose
  | ExpEnd js_value

fun close_value :: "js_value \<Rightarrow> frame list \<Rightarrow> (frame list \<times> expect) option" where
  "close_value v [] = Some ([], ExpEnd v)"
| "close_value v (InArray vs # st) = Some (InArray (vs @ [v]) # st, ExpCommaOrClose)"
| "close_value v (InObject kvs (Some k) # st) =
     Some (InObject (kvs @ [(k, v)]) None # st, ExpCommaOrClose)"
| "close_value v (InObject kvs None # st) = None"

definition takes_value :: "expect \<Rightarrow> bool" where
  "takes_value x \<longleftrightarrow> x = ExpValue \<or> x = ExpValueOrClose"

fun parse_step :: "token \<Rightarrow> frame list \<times> expect \<Rightarrow> (frame list \<times> expect) option" where
  "parse_step TLBracket (st, x) =
     (if takes_value x then Some (InArray [] # st, ExpValueOrClose) else None)"
| "parse_step TLBrace (st, x) =
     (if takes_value x then Some (InObject [] None # st, ExpKeyOrClose) else None)"
| "parse_step TRBracket (st, x) =
     (case st of
        InArray vs # st' \<Rightarrow>
          if x = ExpValueOrClose \<or> x = ExpCommaOrClose then close_value (JArr vs) st' else None
      | _ \<Rightarrow> None)"
| "parse_step TRBrace (st, x) =
     (case st of
        InObject kvs None # st' \<Rightarrow>
          if x = ExpKeyOrClose \<or> x = ExpCommaOrClose then close_value (JObj kvs) st' else None
      | _ \<Rightarrow> None)"
| "parse_step TComma (st, x) =
     (if x = ExpCommaOrClose then
        (case st of
           InArray vs # st' \<Rightarrow> Some (st, ExpValue)
         | InObject kvs None # st' \<Rightarrow> Some (st, ExpKey)
         | _ \<Rightarrow> None)
      else None)"
| "parse_step TColon (st, x) = (if x = ExpColon then Some (st, ExpValue) else None)"
| "parse_step (TString s) (st, x) =
     (if takes_value x then close_value (JStr s) st
      else if x = ExpKey \<or> x = ExpKeyOrClose then
        (case st of
           InObject kvs None # st' \<Rightarrow> Some (InObject kvs (Some s) # st', ExpColon)
         | _ \<Rightarrow> None)
      else None)"
| "parse_step (TNumber m e) (st, x) =
     (if takes_value x then close_value (JNum m e) st else None)"
| "parse_step TTrue (st, x) = (if takes_value x then close_value (JBool True) st else None)"
| "parse_step TFalse (st, x) = (if takes_value x then close_value (JBool False) st else None)"
| "parse_step TNull (st, x) = (if takes_value x then close_value JNull st else None)"

fun parse_tokens :: "token list \<Rightarrow> frame list \<times> expect \<Rightarrow> js_value option" where
  "parse_tokens [] (st, x) = (case x of ExpEnd v \<Rightarrow> Some v | _ \<Rightarrow> None)"
| "parse_tokens (t # ts) p =
     (case parse_step t p of None \<Rightarrow> None | Some p' \<Rightarrow> parse_tokens ts p')"

definition JSON_parse :: "jsstring \<Rightarrow> js_error + js_value" where
  "JSON_parse text =
     (case lex text of
        None \<Rightarrow> Inl SyntaxError
      | Some ts \<Rightarrow>
          (case parse_tokens ts ([], ExpValue) of
             None \<Rightarrow> Inl SyntaxError
           | Some v \<Rightarrow> Inr v))"

section \<open>JSON.stringify of the outbound actions\<close>

definition hex_digit :: "nat \<Rightarrow> code_unit" where
  "hex_digit d = (if d < 10 then of_nat (48 + d) else of_nat (87 + d))"

definition unicode_escape :: "code_unit \<Rightarrow> jsstring" where
  "unicode_escape c =
     [0x5C, 0x75] @ map (\<lambda>i. hex_digit (unat (drop_bit i c AND 0xF))) [12, 8, 4, 0]"

definition is_lead_surrogate :: "code_unit \<Rightarrow> bool" where
  "is_lead_surrogate c \<longleftrightarrow> 0xD800 \<le> c \<and> c \<le> 0xDBFF"

definition is_trail_surrogate :: "code_unit \<Rightarrow> bool" where
  "is_trail_surrogate c \<longleftrightarrow> 0xDC00 \<le> c \<and> c \<le> 0xDFFF"

text \<open>
  QuoteJSONString of ECMA-262: the short escapes, \<^verbatim>\<open>\uXXXX\<close> for the other control
  characters and for a surrogate without its partner, every other code unit as it is.
\<close>

fun quote_units :: "jsstring \<Rightarrow> jsstring" where
  "quote_units [] = []"
| "quote_units (c # cs) =
     (if c = 0x08 then [0x5C, 0x62] @ quote_units cs
      else if c = 0x09 then [0x5C, 0x74] @ quote_units cs
      else if c = 0x0A then [0x5C, 0x6E] @ quote_units cs
      else if c = 0x0C then [0x5C, 0x66] @ quote_units cs
      else if c = 0x0D then [0x5C, 0x72] @ quote_units cs
      else if c = 0x22 then [0x5C, 0x22] @ quote_units cs
      else if c = 0x5C then [0x5C, 0x5C] @ quote_units cs
      else if c < 0x20 then unicode_escape c @ quote_units cs
      else if is_lead_surrogate c then
        (case cs of
           [] \<Rightarrow> unicode_escape c
         | d # ds \<Rightarrow>
             if is_trail_surrogate d then c # d # quote_units ds
             else unicode_escape c @ quote_units cs)
      else if is_trail_surrogate c then unicode_escape c @ quote_units cs
      else c # quote_units cs)"

definition QuoteJSONString :: "jsstring \<Rightarrow> jsstring" where
  "QuoteJSONString s = 0x22 # quote_units s @ [0x22]"

text \<open>\<^verbatim>\<open>JSON.stringify({ type: 'message', content })\<close> for a string \<open>content\<close>.\<close>

definition message_frame :: "jsstring \<Rightarrow> jsstring" where
  \<open>message_frame content =
     js ''{"type":"message","content":'' @ QuoteJSONString content @ js ''}''\<close>

text \<open>\<^verbatim>\<open>JSON.stringify({ type: 'forget' })\<close>.\<close>

definition forget_frame :: jsstring where
  \<open>forget_frame = js ''{"type":"forget"}''\<close>

section \<open>The state of the App component\<close>

text \<open>
  \<^verbatim>\<open>MessageData\<close>, the entry of the timeline. \<open>sender\<close> and \<open>content\<close> hold what the
  frame held. The timestamp is either \<^verbatim>\<open>new Date(data.timestamp)\<close> or the clock.
\<close>

datatype js_date = DateOf js_value | DateAt int

record message_data =
  msg_id :: jsstring
  sender :: js_value
  content :: js_value
  timestamp :: js_date

datatype ready_state = CONNECTING | OPEN | CLOSING | CLOSED

text \<open>A WebSocket object: its address, its \<^verbatim>\<open>readyState\<close> and the frames sent on it.\<close>

record websocket =
  url :: jsstring
  readyState :: ready_state
  sent :: "jsstring list"

text \<open>
  The \<^verbatim>\<open>useState\<close> cells that the handlers below touch, the ref \<^verbatim>\<open>wsRef\<close> as an
  index into the WebSocket objects built so far, \<^verbatim>\<open>window.location\<close>, and the
  exceptions that left a handler uncaught.
\<close>

record app_state =
  messages :: "message_data list"
  input :: jsstring
  isTyping :: js_value
  isConnected :: bool
  userId :: jsstring
  showSessionPicker :: bool
  newUserId :: jsstring
  wsRef :: "nat option"
  sockets :: "websocket list"
  location_protocol :: jsstring
  location_host :: jsstring
  uncaught :: "js_error list"

text \<open>
  What one run of a handler reads from the host: \<^verbatim>\<open>Date.now()\<close>, the text of
  \<^verbatim>\<open>Math.random().toString(36)\<close>, and the instant of \<^verbatim>\<open>new Date()\<close>.
\<close>

record env =
  date_now :: int
  math_random :: jsstring
  new_date :: int

definition current_socket :: "app_state \<Rightarrow> websocket option" where
  "current_socket st =
     (case wsRef st of
        None \<Rightarrow> None
      | Some h \<Rightarrow> if h < length (sockets st) then Some (sockets st ! h) else None)"

text \<open>\<^verbatim>\<open>wsRef.current && wsRef.current.readyState === WebSocket.OPEN\<close>.\<close>

definition channel_open :: "app_state \<Rightarrow> bool" where
  "channel_open st =
     (case current_socket st of None \<Rightarrow> False | Some ws \<Rightarrow> readyState ws = OPEN)"

text \<open>
  \<^verbatim>\<open>WebSocket.close()\<close> starts the closing handshake of a socket that is connecting or
  open; on a socket that is closing or closed it does nothing.
\<close>

definition ws_close :: "nat \<Rightarrow> app_state \<Rightarrow> app_state" where
  "ws_close h st =
     (if h < length (sockets st) \<and> readyState (sockets st ! h) \<in> {CONNECTING, OPEN}
      then st\<lparr>sockets := (sockets st)[h := (sockets st ! h)\<lparr>readyState := CLOSING\<rparr>]\<rparr>
      else st)"

text \<open>
  \<^verbatim>\<open>wsRef.current.send(data)\<close>. Both callers send only after the test of
  \<open>channel_open\<close>; on a socket in another state nothing is transmitted.
\<close>

definition ws_send :: "jsstring \<Rightarrow> app_state \<Rightarrow> app_state" where
  "ws_send data st =
     (case wsRef st of
        None \<Rightarrow> st
      | Some h \<Rightarrow>
          if h < length (sockets st) \<and> readyState (sockets st ! h) = OPEN
          then st\<lparr>sockets :=
                 (sockets st)[h := (sockets st ! h)\<lparr>sent := sent (sockets st ! h) @ [data]\<rparr>]\<rparr>
          else st)"

section \<open>Handlers\<close>

text \<open>
  A handler calls state setters and \<^verbatim>\<open>send\<close> one after the other; the calls of one
  run are kept as a list, in program order. The two kinds of call take effect at
  different times. \<^verbatim>\<open>send\<close> acts on the socket at once, while the handler runs. A
  setter only queues its update: the state cells keep their values until the
  handler has returned, and React then applies the queued updates, in the order of
  the calls, for the next render.
\<close>

datatype effect =
    SetMessagesAppend message_data
  | SetMessages "message_data list"
  | SetInput jsstring
  | SetIsTyping js_value
  | SetIsConnected bool
  | SetUserId jsstring
  | SetShowSessionPicker bool
  | SetNewUserId jsstring
  | WsSend jsstring

text \<open>What the run of the handler itself does: its sends, the state cells untouched.\<close>

fun perform_sends :: "effect list \<Rightarrow> app_state \<Rightarrow> app_state" where
  "perform_sends [] st = st"
| "perform_sends (WsSend d # es) st = perform_sends es (ws_send d st)"
| "perform_sends (x # es) st = perform_sends es st"

text \<open>What React does after the handler has returned: the queued updates, in order.\<close>

fun apply_update :: "effect \<Rightarrow> app_state \<Rightarrow> app_state" where
  "apply_update (SetMessagesAppend m) st = st\<lparr>messages := messages st @ [m]\<rparr>"
| "apply_update (SetMessages ms) st = st\<lparr>messages := ms\<rparr>"
| "apply_update (SetInput s) st = st\<lparr>input := s\<rparr>"
| "apply_update (SetIsTyping v) st = st\<lparr>isTyping := v\<rparr>"
| "apply_update (SetIsConnected b) st = st\<lparr>isConnected := b\<rparr>"
| "apply_update (SetUserId u) st = st\<lparr>userId := u\<rparr>"
| "apply_update (SetShowSessionPicker b) st = st\<lparr>showSessionPicker := b\<rparr>"
| "apply_update (SetNewUserId s) st = st\<lparr>newUserId := s\<rparr>"
| "apply_update (WsSend d) st = st"

fun apply_updates :: "effect list \<Rightarrow> app_state \<Rightarrow> app_state" where
  "apply_updates [] st = st"
| "apply_updates (e # es) st = apply_updates es (apply_update e st)"

text \<open>\<^verbatim>\<open>ws.onopen\<close> and \<^verbatim>\<open>ws.onclose\<close> (App.tsx 56-64).\<close>

definition ws_onopen :: "effect list" where
  "ws_onopen = [SetIsConnected True]"

definition ws_onclose :: "effect list" where
  "ws_onclose = [SetIsConnected False]"

text \<open>
  \<^verbatim>\<open>ws.onmessage\<close> (App.tsx 70-94). \<^verbatim>\<open>JSON.parse\<close> is not inside a \<^verbatim>\<open>try\<close>, so its
  SyntaxError leaves the handler, and so does the TypeError of \<^verbatim>\<open>data.type\<close> on
  \<^verbatim>\<open>null\<close>. Both come before the first setter.
\<close>

definition new_id :: "env \<Rightarrow> jsstring" where
  "new_id e = toString (date_now e) @ math_random e"

definition frame_date :: "env \<Rightarrow> js_value \<Rightarrow> js_date" where
  "frame_date e data =
     (if truthy (get_prop data (js ''timestamp''))
      then DateOf (get_prop data (js ''timestamp''))
      else DateAt (new_date e))"

definition ws_onmessage :: "env \<Rightarrow> jsstring \<Rightarrow> js_error + effect list" where
  "ws_onmessage e event_data =
     (case JSON_parse event_data of
        Inl err \<Rightarrow> Inl err
      | Inr data \<Rightarrow>
          if data = JNull then Inl TypeError
          else if get_prop data (js ''type'') = JStr (js ''message'')
                  \<and> truthy (get_prop data (js ''content'')) then
            Inr [SetMessagesAppend
                   \<lparr>msg_id = new_id e,
                    sender = js_or (get_prop data (js ''sender'')) (JStr (js ''assistant'')),
                    content = get_prop data (js ''content''),
                    timestamp = frame_date e data\<rparr>,
                 SetIsTyping (JBool False)]
          else if get_prop data (js ''type'') = JStr (js ''typing'') then
            Inr [SetIsTyping (js_or (get_prop data (js ''typing'')) (JBool False))]
          else if get_prop data (js ''type'') = JStr (js ''tool'')
                  \<and> truthy (get_prop data (js ''content'')) then
            Inr [SetMessagesAppend
                   \<lparr>msg_id = new_id e,
                    sender = JStr (js ''tool''),
                    content = get_prop data (js ''content''),
                    timestamp = frame_date e data\<rparr>]
          else Inr [])"

text \<open>\<^verbatim>\<open>switchSession\<close> (App.tsx 150-154).\<close>

definition switchSession :: "jsstring \<Rightarrow> effect list" where
  "switchSession newId = [SetMessages [], SetUserId newId, SetShowSessionPicker False]"

text \<open>\<^verbatim>\<open>'web_' + Math.random().toString(36).substr(2, 9)\<close>.\<close>

definition random_id :: "env \<Rightarrow> jsstring" where
  "random_id e = js ''web_'' @ substr 2 9 (math_random e)"

text \<open>\<^verbatim>\<open>handleNewSession\<close> (App.tsx 156-160).\<close>

definition handleNewSession :: "env \<Rightarrow> app_state \<Rightarrow> effect list" where
  "handleNewSession e st =
     (let id = (if trim (newUserId st) \<noteq> [] then trim (newUserId st) else random_id e)
      in switchSession id @ [SetNewUserId []])"

text \<open>\<^verbatim>\<open>sendMessage\<close> (App.tsx 162-179).\<close>

definition sendMessage :: "env \<Rightarrow> app_state \<Rightarrow> effect list" where
  "sendMessage e st =
     (let content = trim (input st)
      in if content = [] \<or> \<not> channel_open st then []
         else [SetMessagesAppend
                 \<lparr>msg_id = new_id e,
                  sender = JStr (js ''user''),
                  content = JStr content,
                  timestamp = DateAt (new_date e)\<rparr>,
               WsSend (message_frame content),
               SetInput [],
               SetIsTyping (JBool True)])"

text \<open>\<^verbatim>\<open>forgetSession\<close> (App.tsx 181-185).\<close>

definition forgetSession :: "app_state \<Rightarrow> effect list" where
  "forgetSession st =
     (if \<not> channel_open st then [] else [WsSend forget_frame, SetMessages []])"

section \<open>The connection and its effect\<close>

text \<open>
  \<^verbatim>\<open>new WebSocket(url)\<close> parses the address and throws a SyntaxError when it has a
  fragment, that is when a \<^verbatim>\<open>#\<close> occurs in it. The scheme is \<^verbatim>\<open>ws:\<close> or \<^verbatim>\<open>wss:\<close> and
  the host is that of the page, which the browser has parsed before, so nothing else
  in the address makes the constructor throw.
\<close>

definition socket_url :: "app_state \<Rightarrow> jsstring \<Rightarrow> jsstring" where
  "socket_url st targetUserId =
     (if location_protocol st = js ''https:'' then js ''wss:'' else js ''ws:'')
     @ js ''//'' @ location_host st @ js ''/ws/'' @ targetUserId"

definition WebSocket_new :: "jsstring \<Rightarrow> js_error + websocket" where
  "WebSocket_new address =
     (if 0x23 \<in> set address then Inl SyntaxError
      else Inr \<lparr>url = address, readyState = CONNECTING, sent = []\<rparr>)"

text \<open>
  \<^verbatim>\<open>connect\<close> (App.tsx 46-97): close the socket of \<^verbatim>\<open>wsRef\<close> if there is one, build a
  WebSocket for the identity and store it in \<^verbatim>\<open>wsRef\<close>. The constructor is not
  inside a \<^verbatim>\<open>try\<close>: when it throws, the old socket has been closed already, no
  socket is built and \<^verbatim>\<open>wsRef\<close> keeps the old one. The result is the exception, if
  any, with the state that \<^verbatim>\<open>connect\<close> leaves.
\<close>

definition connect :: "jsstring \<Rightarrow> app_state \<Rightarrow> js_error option \<times> app_state" where
  "connect targetUserId st =
     (let st1 = (case wsRef st of None \<Rightarrow> st | Some h \<Rightarrow> ws_close h st)
      in case WebSocket_new (socket_url st targetUserId) of
           Inl err \<Rightarrow> (Some err, st1)
         | Inr ws \<Rightarrow>
             (None, st1\<lparr>sockets := sockets st1 @ [ws], wsRef := Some (length (sockets st1))\<rparr>))"

text \<open>
  The effect \<^verbatim>\<open>useEffect(..., [userId, connect])\<close> (App.tsx 99-107): its cleanup
  closes the socket of \<^verbatim>\<open>wsRef\<close>, its body connects for the current identity.
\<close>

definition userId_effect_cleanup :: "app_state \<Rightarrow> app_state" where
  "userId_effect_cleanup st = (case wsRef st of None \<Rightarrow> st | Some h \<Rightarrow> ws_close h st)"

definition userId_effect :: "app_state \<Rightarrow> js_error option \<times> app_state" where
  "userId_effect st = connect (userId st) st"

text \<open>
  An exception that leaves the body of the effect is uncaught. What React then does
  with the component depends on an error boundary around \<^verbatim>\<open>App\<close>, which App.tsx
  does not have, and is not followed further.
\<close>

definition run_effect :: "js_error option \<times> app_state \<Rightarrow> app_state" where
  "run_effect r =
     (case r of
        (None, st) \<Rightarrow> st
      | (Some err, st) \<Rightarrow> st\<lparr>uncaught := uncaught st @ [err]\<rparr>)"

text \<open>
  React runs an effect again only when one of its dependencies differs from the last
  render. \<^verbatim>\<open>connect\<close> is a \<^verbatim>\<open>useCallback\<close> without dependencies and never differs, so
  after a render the effect runs, cleanup first, exactly when \<^verbatim>\<open>userId\<close> has changed.
\<close>

definition commit :: "app_state \<Rightarrow> app_state \<Rightarrow> app_state" where
  "commit prev st =
     (if userId st \<noteq> userId prev then run_effect (userId_effect (userId_effect_cleanup st))
      else st)"

text \<open>
  One turn of the event loop. \<open>handler_returned\<close> is the state at the moment the
  handler returns: its sends are done, its updates are still queued. \<open>run_handler\<close>
  goes on to apply the updates and to render. An exception that leaves a handler is
  reported by the host and nothing else happens; no handler here throws after a
  call.
\<close>

definition handler_returned :: "js_error + effect list \<Rightarrow> app_state \<Rightarrow> app_state" where
  "handler_returned r st =
     (case r of
        Inl err \<Rightarrow> st\<lparr>uncaught := uncaught st @ [err]\<rparr>
      | Inr effs \<Rightarrow> perform_sends effs st)"

definition run_handler :: "js_error + effect list \<Rightarrow> app_state \<Rightarrow> app_state" where
  "run_handler r st =
     (case r of
        Inl err \<Rightarrow> handler_returned r st
      | Inr effs \<Rightarrow> commit st (apply_updates effs (handler_returned r st)))"

text \<open>The events of the page, each with the handler that App.tsx binds to it.\<close>

definition on_message :: "env \<Rightarrow> jsstring \<Rightarrow> app_state \<Rightarrow> app_state" where
  "on_message e event_data st = run_handler (ws_onmessage e event_data) st"

definition on_send :: "env \<Rightarrow> app_state \<Rightarrow> app_state" where
  "on_send e st = run_handler (Inr (sendMessage e st)) st"

text \<open>The state when \<^verbatim>\<open>sendMessage\<close> has returned and React has not rendered yet.\<close>

definition on_send_returned :: "env \<Rightarrow> app_state \<Rightarrow> app_state" where
  "on_send_returned e st = handler_returned (Inr (sendMessage e st)) st"

definition on_forget :: "app_state \<Rightarrow> app_state" where
  "on_forget st = run_handler (Inr (forgetSession st)) st"

definition on_select_session :: "jsstring \<Rightarrow> app_state \<Rightarrow> app_state" where
  "on_select_session newId st = run_handler (Inr (switchSession newId)) st"

definition on_create_session :: "env \<Rightarrow> app_state \<Rightarrow> app_state" where
  "on_create_session e st = run_handler (Inr (handleNewSession e st)) st"

definition on_input_change :: "jsstring \<Rightarrow> app_state \<Rightarrow> app_state" where
  "on_input_change v st = run_handler (Inr [SetInput v]) st"

definition on_new_user_id_change :: "jsstring \<Rightarrow> app_state \<Rightarrow> app_state" where
  "on_new_user_id_change v st = run_handler (Inr [SetNewUserId v]) st"

text \<open>The socket \<open>h\<close> completes its handshake, or is closed, and fires its handler.\<close>

definition socket_opened :: "nat \<Rightarrow> app_state \<Rightarrow> app_state" where
  "socket_opened h st =
     (if h < length (sockets st) \<and> readyState (sockets st ! h) = CONNECTING
      then run_handler (Inr ws_onopen)
             (st\<lparr>sockets := (sockets st)[h := (sockets st ! h)\<lparr>readyState := OPEN\<rparr>]\<rparr>)
      else st)"

definition socket_closed :: "nat \<Rightarrow> app_state \<Rightarrow> app_state" where
  "socket_closed h st =
     (if h < length (sockets st) \<and> readyState (sockets st ! h) \<noteq> CLOSED
      then run_handler (Inr ws_onclose)
             (st\<lparr>sockets := (sockets st)[h := (sockets st ! h)\<lparr>readyState := CLOSED\<rparr>]\<rparr>)
      else st)"

text \<open>The first render (App.tsx 21-30) and the first run of the effect.\<close>

definition initial_state :: "env \<Rightarrow> jsstring \<Rightarrow> jsstring \<Rightarrow> app_state" where
  "initial_state e protocol host =
     \<lparr>messages = [], input = [], isTyping = JBool False, isConnected = False,
      userId = random_id e, showSessionPicker = False, newUserId = [],
      wsRef = None, sockets = [], location_protocol = protocol, location_host = host,
      uncaught = []\<rparr>"

definition mount :: "env \<Rightarrow> jsstring \<Rightarrow> jsstring \<Rightarrow> app_state" where
  "mount e protocol host = run_effect (userId_effect (initial_state e protocol host))"

text \<open>Frames delivered one after the other, each to \<^verbatim>\<open>ws.onmessage\<close>.\<close>

fun deliver :: "(env \<times> jsstring) list \<Rightarrow> app_state \<Rightarrow> app_state" where
  "deliver [] st = st"
| "deliver ((e, d) # fs) st = deliver fs (on_message e d st)"

text \<open>The entries that the handler appends for one frame, read off its setter calls.\<close>

fun appended :: "effect list \<Rightarrow> message_data list" where
  "appended [] = []"
| "appended (SetMessagesAppend m # es) = m # appended es"
| "appended (x # es) = appended es"

definition frame_entries :: "env \<Rightarrow> jsstring \<Rightarrow> message_data list" where
  "frame_entries e d = (case ws_onmessage e d of Inl err \<Rightarrow> [] | Inr effs \<Rightarrow> appended effs)"

section \<open>A session used in the examples\<close>

definition demo_env :: env where
  "demo_env = \<lparr>date_now = 1700000000000, math_random = js ''0.abc123'',
               new_date = 1700000000000\<rparr>"

text \<open>The page is mounted with identity \<^verbatim>\<open>web_abc123\<close> and its socket opens.\<close>

definition session_open :: app_state where
  "session_open = socket_opened 0 (mount demo_env (js ''http:'') (js ''localhost:8000''))"

text \<open>The user types \<^verbatim>\<open>ping\<close> and sends it.\<close>

definition session_ping :: app_state where
  "session_ping = on_send demo_env (on_input_change (js ''ping'') session_open)"

text \<open>The socket is then closed by the server.\<close>

definition session_closed :: app_state where
  "session_closed = socket_closed 0 session_ping"

section \<open>Auxiliary facts\<close>

lemma commit_same: "userId st' = userId st \<Longrightarrow> commit st st' = st'"
  by (simp add: commit_def)

lemma ws_send_fields:
  "messages (ws_send d st) = messages st"
  "isTyping (ws_send d st) = isTyping st"
  "userId (ws_send d st) = userId st"
  "input (ws_send d st) = input st"
  "wsRef (ws_send d st) = wsRef st"
  "uncaught (ws_send d st) = uncaught st"
  by (simp_all add: ws_send_def split: option.splits)

lemma current_socket_ws_send:
  "channel_open st \<Longrightarrow>
   map_option sent (current_socket (ws_send d st)) =
   map_option (\<lambda>ws. sent ws @ [d]) (current_socket st)"
  by (auto simp: channel_open_def current_socket_def ws_send_def split: option.splits if_splits)

lemma ws_onmessage_shape:
  assumes "ws_onmessage e d = Inr effs"
  shows "(\<exists>m. effs = [SetMessagesAppend m, SetIsTyping (JBool False)])
       \<or> (\<exists>v. effs = [SetIsTyping v]) \<or> (\<exists>m. effs = [SetMessagesAppend m]) \<or> effs = []"
  using assms by (auto simp: ws_onmessage_def split: sum.splits if_splits)

lemma on_message_messages:
  "messages (on_message e d st) = messages st @ frame_entries e d"
proof (cases "ws_onmessage e d")
  case (Inl err)
  then show ?thesis by (simp add: on_message_def frame_entries_def run_handler_def handler_returned_def)
next
  case (Inr effs)
  from ws_onmessage_shape [OF Inr] show ?thesis
    by (auto simp: on_message_def frame_entries_def run_handler_def handler_returned_def Inr commit_same)
qed

lemma ws_close_fields:
  "messages (ws_close h st) = messages st"
  "isTyping (ws_close h st) = isTyping st"
  "userId (ws_close h st) = userId st"
  "wsRef (ws_close h st) = wsRef st"
  "length (sockets (ws_close h st)) = length (sockets st)"
  by (simp_all add: ws_close_def)

lemma ws_close_idem: "ws_close h (ws_close h st) = ws_close h st"
  by (auto simp: ws_close_def)

lemma cleanup_fields:
  "messages (userId_effect_cleanup st) = messages st"
  "isTyping (userId_effect_cleanup st) = isTyping st"
  "userId (userId_effect_cleanup st) = userId st"
  "wsRef (userId_effect_cleanup st) = wsRef st"
  "length (sockets (userId_effect_cleanup st)) = length (sockets st)"
  by (simp_all add: userId_effect_cleanup_def ws_close_fields split: option.splits)

lemma cleanup_closes_current:
  assumes "wsRef st = Some h" and "h < length (sockets st)"
    and "readyState (sockets st ! h) \<in> {CONNECTING, OPEN}"
  shows "readyState (sockets (userId_effect_cleanup st) ! h) = CLOSING"
  using assms by (simp add: userId_effect_cleanup_def ws_close_def)

lemma socket_url_ws_close: "socket_url (ws_close h st) u = socket_url st u"
  by (simp add: socket_url_def ws_close_def)

lemma socket_url_cleanup:
  "socket_url (userId_effect_cleanup st) u = socket_url st u"
  by (auto simp: socket_url_def userId_effect_cleanup_def ws_close_def split: option.splits)

lemma run_connect_fields:
  "messages (run_effect (connect u st)) = messages st"
  "isTyping (run_effect (connect u st)) = isTyping st"
  "userId (run_effect (connect u st)) = userId st"
  by (simp_all add: run_effect_def connect_def Let_def WebSocket_new_def ws_close_fields
      split: option.splits)

lemma run_connect_accepted:
  assumes "0x23 \<notin> set (socket_url st u)"
  shows "sockets (run_effect (connect u (userId_effect_cleanup st))) =
           sockets (userId_effect_cleanup st)
           @ [\<lparr>url = socket_url st u, readyState = CONNECTING, sent = []\<rparr>]"
    and "wsRef (run_effect (connect u (userId_effect_cleanup st))) = Some (length (sockets st))"
  using assms
  by (auto simp: run_effect_def connect_def Let_def WebSocket_new_def socket_url_ws_close
      userId_effect_cleanup_def ws_close_idem ws_close_fields split: option.splits)

lemma run_connect_refused:
  assumes "0x23 \<in> set (socket_url st u)"
  shows "sockets (run_effect (connect u (userId_effect_cleanup st))) =
           sockets (userId_effect_cleanup st)"
    and "wsRef (run_effect (connect u (userId_effect_cleanup st))) = wsRef st"
    and "uncaught (run_effect (connect u (userId_effect_cleanup st))) =
           uncaught (userId_effect_cleanup st) @ [SyntaxError]"
  using assms
  by (auto simp: run_effect_def connect_def Let_def WebSocket_new_def socket_url_ws_close
      userId_effect_cleanup_def ws_close_idem ws_close_fields split: option.splits)

lemma commit_fields:
  "messages (commit prev st) = messages st"
  "isTyping (commit prev st) = isTyping st"
  by (simp_all add: commit_def userId_effect_def run_connect_fields cleanup_fields)

lemma run_connect_newUserId:
  "run_effect (connect u (st\<lparr>newUserId := v\<rparr>)) = (run_effect (connect u st))\<lparr>newUserId := v\<rparr>"
  by (auto simp: run_effect_def connect_def Let_def WebSocket_new_def ws_close_def socket_url_def
      split: option.splits)

lemma cleanup_newUserId:
  "userId_effect_cleanup (st\<lparr>newUserId := v\<rparr>) = (userId_effect_cleanup st)\<lparr>newUserId := v\<rparr>"
  by (auto simp: userId_effect_cleanup_def ws_close_def split: option.splits)

lemma commit_newUserId:
  "commit prev (st\<lparr>newUserId := v\<rparr>) = (commit prev st)\<lparr>newUserId := v\<rparr>"
  by (simp add: commit_def userId_effect_def cleanup_newUserId run_connect_newUserId cleanup_fields)

lemma on_select_session_reconnect:
  assumes "newId \<noteq> userId st"
  shows "on_select_session newId st =
           run_effect (connect newId
             (userId_effect_cleanup
                (st\<lparr>messages := [], userId := newId, showSessionPicker := False\<rparr>)))"
  using assms
  by (simp add: on_select_session_def run_handler_def handler_returned_def switchSession_def
      commit_def userId_effect_def cleanup_fields)

lemma cleanup_switched:
  "sockets (userId_effect_cleanup (st\<lparr>messages := ms, userId := u, showSessionPicker := b\<rparr>))
     = sockets (userId_effect_cleanup st)"
  "uncaught (userId_effect_cleanup (st\<lparr>messages := ms, userId := u, showSessionPicker := b\<rparr>))
     = uncaught st"
  "socket_url (st\<lparr>messages := ms, userId := u, showSessionPicker := b\<rparr>) v = socket_url st v"
  by (auto simp: userId_effect_cleanup_def ws_close_def socket_url_def split: option.splits)

lemma switch_to_refused_address:
  assumes "newId \<noteq> userId st" and "0x23 \<in> set (socket_url st newId)"
  shows "sockets (on_select_session newId st) = sockets (userId_effect_cleanup st)"
    and "wsRef (on_select_session newId st) = wsRef st"
    and "uncaught (on_select_session newId st) = uncaught st @ [SyntaxError]"
proof -
  let ?st1 = "st\<lparr>messages := [], userId := newId, showSessionPicker := False\<rparr>"
  have h: "0x23 \<in> set (socket_url ?st1 newId)"
    using assms(2) by (simp add: cleanup_switched)
  note r = on_select_session_reconnect [OF assms(1)]
  show "sockets (on_select_session newId st) = sockets (userId_effect_cleanup st)"
    using run_connect_refused(1) [OF h] by (simp add: r cleanup_switched)
  show "wsRef (on_select_session newId st) = wsRef st"
    using run_connect_refused(2) [OF h] by (simp add: r)
  show "uncaught (on_select_session newId st) = uncaught st @ [SyntaxError]"
    using run_connect_refused(3) [OF h] by (simp add: r cleanup_switched)
qed

lemma on_select_session_unfold:
  "on_select_session newId st =
     commit st (st\<lparr>messages := [], userId := newId, showSessionPicker := False\<rparr>)"
  by (simp add: on_select_session_def run_handler_def handler_returned_def switchSession_def)

lemma on_send_unfold:
  "trim (input st) \<noteq> [] \<Longrightarrow> channel_open st \<Longrightarrow>
   on_send e st =
     (ws_send (message_frame (trim (input st))) st)
     \<lparr>messages := messages st @
         [\<lparr>msg_id = new_id e, sender = JStr (js ''user''),
           content = JStr (trim (input st)), timestamp = DateAt (new_date e)\<rparr>],
      input := [], isTyping := JBool True\<rparr>"
  by (simp add: on_send_def sendMessage_def run_handler_def handler_returned_def Let_def
      commit_same ws_send_fields)

lemma on_send_returned_unfold:
  "trim (input st) \<noteq> [] \<Longrightarrow> channel_open st \<Longrightarrow>
   on_send_returned e st = ws_send (message_frame (trim (input st))) st"
  by (simp add: on_send_returned_def sendMessage_def handler_returned_def Let_def)

lemma channel_open_messages_update:
  "channel_open (st\<lparr>messages := ms\<rparr>) = channel_open st"
  "current_socket (st\<lparr>messages := ms\<rparr>) = current_socket st"
  "current_socket (st\<lparr>messages := ms, input := i, isTyping := t\<rparr>) = current_socket st"
  by (simp_all add: channel_open_def current_socket_def split: option.splits)

lemma on_message_parsed:
  assumes "JSON_parse d = Inr data" and "data \<noteq> JNull"
  shows "ws_onmessage e d =
     (if get_prop data (js ''type'') = JStr (js ''message'')
          \<and> truthy (get_prop data (js ''content'')) then
        Inr [SetMessagesAppend
               \<lparr>msg_id = new_id e,
                sender = js_or (get_prop data (js ''sender'')) (JStr (js ''assistant'')),
                content = get_prop data (js ''content''),
                timestamp = frame_date e data\<rparr>,
             SetIsTyping (JBool False)]
      else if get_prop data (js ''type'') = JStr (js ''typing'') then
        Inr [SetIsTyping (js_or (get_prop data (js ''typing'')) (JBool False))]
      else if get_prop data (js ''type'') = JStr (js ''tool'')
              \<and> truthy (get_prop data (js ''content'')) then
        Inr [SetMessagesAppend
               \<lparr>msg_id = new_id e,
                sender = JStr (js ''tool''),
                content = get_prop data (js ''content''),
                timestamp = frame_date e data\<rparr>]
      else Inr [])"
  using assms by (simp add: ws_onmessage_def)

lemma kinds_distinct:
  "js ''message'' \<noteq> js ''typing''" "js ''message'' \<noteq> js ''tool''"
  "js ''typing'' \<noteq> js ''tool''" "js ''typing'' \<noteq> js ''message''"
  "js ''tool'' \<noteq> js ''message''" "js ''tool'' \<noteq> js ''typing''"
  by (simp_all add: js_def)

section \<open>Malformed frames\<close>

text \<open>
  C1. The claim is that a frame that is not JSON, such as \<^verbatim>\<open>{not json\<close>, is dropped
  without throwing. On that frame \<^verbatim>\<open>JSON.parse\<close> raises a SyntaxError, nothing in
  \<^verbatim>\<open>ws.onmessage\<close> catches it, and it leaves the handler; no setter has run, so the
  timeline, the typing flag and the sockets are as before.
\<close>

theorem malformed_frame_throws:
  \<open>ws_onmessage e (js ''{not json'') = Inl SyntaxError
   \<and> on_message e (js ''{not json'') st = st\<lparr>uncaught := uncaught st @ [SyntaxError]\<rparr>\<close>
proof -
  have \<open>JSON_parse (js ''{not json'') = Inl SyntaxError\<close>
    by code_simp
  then show ?thesis
    by (simp add: ws_onmessage_def on_message_def run_handler_def handler_returned_def)
qed

section \<open>Forgetting the conversation\<close>

text \<open>
  C2, as stated: in every channel state \<^verbatim>\<open>forget()\<close> leaves an empty timeline and
  the typing flag false. It fails on the closed session: the user's entry is still
  there and the flag is still true.
\<close>

theorem forget_closed_channel_counterexample:
  "map content (messages (on_forget session_closed)) = [JStr (js ''ping'')]
   \<and> isTyping (on_forget session_closed) = JBool True"
  by code_simp

text \<open>
  C2, amended: when the socket of \<^verbatim>\<open>wsRef\<close> is open, \<^verbatim>\<open>forgetSession\<close> sends the
  forget action and then empties the timeline, and leaves the typing flag as it
  was; in any other channel state it does nothing at all.
\<close>

theorem forget_clears_only_when_open:
  "(channel_open st \<longrightarrow>
      forgetSession st = [WsSend forget_frame, SetMessages []]
      \<and> messages (on_forget st) = []
      \<and> isTyping (on_forget st) = isTyping st
      \<and> map_option sent (current_socket (on_forget st)) =
          map_option (\<lambda>ws. sent ws @ [forget_frame]) (current_socket st))
   \<and> (\<not> channel_open st \<longrightarrow> forgetSession st = [] \<and> on_forget st = st)"
proof (intro conjI impI)
  assume o: "channel_open st"
  show "forgetSession st = [WsSend forget_frame, SetMessages []]"
    using o by (simp add: forgetSession_def)
  have r: "on_forget st = (ws_send forget_frame st)\<lparr>messages := []\<rparr>"
    using o by (simp add: on_forget_def forgetSession_def run_handler_def handler_returned_def commit_same ws_send_fields)
  show "messages (on_forget st) = []" by (simp add: r)
  show "isTyping (on_forget st) = isTyping st" by (simp add: r ws_send_fields)
  have "current_socket ((ws_send forget_frame st)\<lparr>messages := []\<rparr>)
        = current_socket (ws_send forget_frame st)"
    by (simp add: current_socket_def split: option.splits)
  then show "map_option sent (current_socket (on_forget st)) =
          map_option (\<lambda>ws. sent ws @ [forget_frame]) (current_socket st)"
    using current_socket_ws_send [OF o] by (simp add: r)
next
  assume c: "\<not> channel_open st"
  show "forgetSession st = []" using c by (simp add: forgetSession_def)
  show "on_forget st = st"
    using c by (simp add: on_forget_def forgetSession_def run_handler_def handler_returned_def commit_same)
qed

theorem forget_clears_only_when_open_witness:
  "channel_open session_ping
   \<and> messages (on_forget session_ping) = []
   \<and> isTyping (on_forget session_ping) = JBool True
   \<and> \<not> channel_open session_closed
   \<and> on_forget session_closed = session_closed"
proof -
  have o: "channel_open session_ping" by code_simp
  have c: "\<not> channel_open session_closed" by code_simp
  have t: "isTyping session_ping = JBool True" by code_simp
  show ?thesis
    using forget_clears_only_when_open [of session_ping]
      forget_clears_only_when_open [of session_closed] o c t
    by simp
qed

section \<open>Order of the timeline\<close>

text \<open>
  C4. For every finite sequence of frames delivered to \<^verbatim>\<open>ws.onmessage\<close>, the
  timeline afterwards is the timeline before followed by the entries of the first
  frame, then those of the second, and so on: the entries stand in delivery order,
  none is moved and none is dropped as a duplicate.
\<close>

theorem timeline_order_is_delivery_order:
  "messages (deliver fs st) = messages st @ concat (map (\<lambda>(e, d). frame_entries e d) fs)"
proof (induction fs arbitrary: st)
  case Nil
  show ?case by simp
next
  case (Cons f fs)
  obtain e d where f: "f = (e, d)" by (cases f)
  show ?case by (simp add: f Cons.IH on_message_messages)
qed

theorem timeline_order_is_delivery_order_witness:
  \<open>map content
     (messages
        (deliver
           [(demo_env, js ''{"type":"message","content":"pong"}''),
            (demo_env, js ''{"type":"typing","typing":true}''),
            (demo_env, js ''{"type":"tool","content":"ls"}''),
            (demo_env, js ''{not json''),
            (demo_env, js ''{"type":"message","content":"pong"}'')]
           session_ping))
   = [JStr (js ''ping''), JStr (js ''pong''), JStr (js ''ls''), JStr (js ''pong'')]\<close>
proof -
  have a: \<open>map content (frame_entries demo_env (js ''{"type":"message","content":"pong"}''))
           = [JStr (js ''pong'')]\<close>
    \<open>frame_entries demo_env (js ''{"type":"typing","typing":true}'') = []\<close>
    \<open>map content (frame_entries demo_env (js ''{"type":"tool","content":"ls"}''))
           = [JStr (js ''ls'')]\<close>
    \<open>frame_entries demo_env (js ''{not json'') = []\<close>
    "map content (messages session_ping) = [JStr (js ''ping'')]"
    by code_simp+
  show ?thesis
    using timeline_order_is_delivery_order
      [of \<open>[(demo_env, js ''{"type":"message","content":"pong"}''),
            (demo_env, js ''{"type":"typing","typing":true}''),
            (demo_env, js ''{"type":"tool","content":"ls"}''),
            (demo_env, js ''{not json''),
            (demo_env, js ''{"type":"message","content":"pong"}'')]\<close> session_ping] a
    by simp
qed

section \<open>Switching the session\<close>

text \<open>
  C3, as stated: a switch to the identity that is already active closes the channel
  and opens a new one. It fails in the session of \<^verbatim>\<open>web_abc123\<close>: after selecting
  \<^verbatim>\<open>web_abc123\<close> again, \<^verbatim>\<open>wsRef\<close> still holds the first socket, that socket is
  still open and no second socket exists.
\<close>

theorem switch_same_identity_counterexample:
  "userId session_ping = js ''web_abc123''
   \<and> wsRef (on_select_session (js ''web_abc123'') session_ping) = Some 0
   \<and> map readyState (sockets (on_select_session (js ''web_abc123'') session_ping)) = [OPEN]"
  by code_simp

text \<open>
  C3, amended: \<^verbatim>\<open>switchSession\<close> always empties the timeline. With the identity that
  is already active it leaves the channel alone: no socket is closed and none is
  built. With a different identity the effect runs: the socket of \<^verbatim>\<open>wsRef\<close>, if it
  is connecting or open, starts closing, and, when the address built from the new
  identity has no \<^verbatim>\<open>#\<close> and the constructor accepts it, a new, connecting socket
  addressed to the new identity is built and stored in \<^verbatim>\<open>wsRef\<close>.
\<close>

theorem switch_reconnects_only_for_new_identity:
  "messages (on_select_session newId st) = []
   \<and> (newId = userId st \<longrightarrow>
        sockets (on_select_session newId st) = sockets st
        \<and> wsRef (on_select_session newId st) = wsRef st)
   \<and> (newId \<noteq> userId st \<and> 0x23 \<notin> set (socket_url st newId) \<longrightarrow>
        sockets (on_select_session newId st) =
          sockets (userId_effect_cleanup st)
          @ [\<lparr>url = socket_url st newId, readyState = CONNECTING, sent = []\<rparr>]
        \<and> wsRef (on_select_session newId st) = Some (length (sockets st)))
   \<and> (newId \<noteq> userId st \<and> wsRef st = Some h \<and> h < length (sockets st)
        \<and> readyState (sockets st ! h) \<in> {CONNECTING, OPEN} \<longrightarrow>
        readyState (sockets (on_select_session newId st) ! h) = CLOSING)"
proof (intro conjI impI)
  show "messages (on_select_session newId st) = []"
    by (simp add: on_select_session_unfold commit_fields)
next
  assume same: "newId = userId st"
  then have "on_select_session newId st =
               st\<lparr>messages := [], userId := newId, showSessionPicker := False\<rparr>"
    by (simp add: on_select_session_unfold commit_same)
  then show "sockets (on_select_session newId st) = sockets st"
    and "wsRef (on_select_session newId st) = wsRef st"
    by simp_all
next
  assume a: "newId \<noteq> userId st \<and> 0x23 \<notin> set (socket_url st newId)"
  let ?st1 = "st\<lparr>messages := [], userId := newId, showSessionPicker := False\<rparr>"
  from a have r: "on_select_session newId st =
                    run_effect (connect newId (userId_effect_cleanup ?st1))"
    by (simp add: on_select_session_reconnect)
  from a have h: "0x23 \<notin> set (socket_url ?st1 newId)"
    by (simp add: cleanup_switched)
  show "sockets (on_select_session newId st) =
          sockets (userId_effect_cleanup st)
          @ [\<lparr>url = socket_url st newId, readyState = CONNECTING, sent = []\<rparr>]"
    using run_connect_accepted(1) [OF h] by (simp add: r cleanup_switched)
  show "wsRef (on_select_session newId st) = Some (length (sockets st))"
    using run_connect_accepted(2) [OF h] by (simp add: r)
next
  assume a: "newId \<noteq> userId st \<and> wsRef st = Some h \<and> h < length (sockets st)
        \<and> readyState (sockets st ! h) \<in> {CONNECTING, OPEN}"
  let ?st1 = "st\<lparr>messages := [], userId := newId, showSessionPicker := False\<rparr>"
  from a have r: "on_select_session newId st =
                    run_effect (connect newId (userId_effect_cleanup ?st1))"
    by (simp add: on_select_session_reconnect)
  have "sockets (on_select_session newId st) ! h = sockets (userId_effect_cleanup st) ! h"
  proof (cases "0x23 \<in> set (socket_url ?st1 newId)")
    case True
    show ?thesis
      using run_connect_refused(1) [OF True] by (simp add: r cleanup_switched)
  next
    case False
    show ?thesis
      using run_connect_accepted(1) [OF False] a
      by (simp add: r cleanup_switched nth_append cleanup_fields)
  qed
  then show "readyState (sockets (on_select_session newId st) ! h) = CLOSING"
    using a cleanup_closes_current [of st h] by simp
qed

theorem switch_reconnects_only_for_new_identity_witness:
  "js ''web_abc123'' = userId session_ping
   \<and> sockets (on_select_session (js ''web_abc123'') session_ping) = sockets session_ping
   \<and> js ''other'' \<noteq> userId session_ping
   \<and> 0x23 \<notin> set (socket_url session_ping (js ''other''))
   \<and> wsRef session_ping = Some 0
   \<and> readyState (sockets session_ping ! 0) = OPEN
   \<and> readyState (sockets (on_select_session (js ''other'') session_ping) ! 0) = CLOSING
   \<and> map readyState (sockets (on_select_session (js ''other'') session_ping))
       = [CLOSING, CONNECTING]
   \<and> wsRef (on_select_session (js ''other'') session_ping) = Some 1"
proof -
  have a: "js ''web_abc123'' = userId session_ping" by code_simp
  have b: "js ''other'' \<noteq> userId session_ping" by code_simp
  have c: "map readyState (sockets (userId_effect_cleanup session_ping)) = [CLOSING]" by code_simp
  have d: "length (sockets session_ping) = 1" by code_simp
  have e: "wsRef session_ping = Some 0" by code_simp
  have f: "readyState (sockets session_ping ! 0) = OPEN" by code_simp
  have k: "0x23 \<notin> set (socket_url session_ping (js ''other''))" by code_simp
  note T = switch_reconnects_only_for_new_identity [of "js ''other''" session_ping 0]
  have g: "readyState (sockets (on_select_session (js ''other'') session_ping) ! 0) = CLOSING"
    using T [THEN conjunct2, THEN conjunct2, THEN conjunct2] b d e f by simp
  have h: "map readyState (sockets (on_select_session (js ''other'') session_ping))
             = [CLOSING, CONNECTING]
           \<and> wsRef (on_select_session (js ''other'') session_ping) = Some 1"
    using T [THEN conjunct2, THEN conjunct2, THEN conjunct1] b c d k by simp
  have i: "sockets (on_select_session (js ''web_abc123'') session_ping) = sockets session_ping"
    using switch_reconnects_only_for_new_identity
      [of "js ''web_abc123''" session_ping 0, THEN conjunct2, THEN conjunct1] a
    by simp
  show ?thesis
    using a b e f g h i k by simp
qed

text \<open>
  The identity \<^verbatim>\<open>a#b\<close> puts a fragment into the address: the constructor throws,
  the first socket is closing, no second socket exists and \<^verbatim>\<open>wsRef\<close> still holds
  the first.
\<close>

lemma switch_to_fragment_identity:
  "map readyState (sockets (on_select_session (js ''a#b'') session_ping)) = [CLOSING]
   \<and> wsRef (on_select_session (js ''a#b'') session_ping) = Some 0
   \<and> uncaught (on_select_session (js ''a#b'') session_ping) = [SyntaxError]"
  by code_simp

text \<open>
  C8, as stated: after a session switch the typing flag is reset to false. It fails
  in the session where the user has just sent \<^verbatim>\<open>ping\<close>: the flag is true before
  the switch and true after it.
\<close>

theorem switch_keeps_typing_flag_counterexample:
  "isTyping session_ping = JBool True
   \<and> isTyping (on_select_session (js ''other'') session_ping) = JBool True"
  by code_simp

text \<open>
  C8, amended: after every session switch the timeline is empty, whatever it held
  before, and the typing flag is what it was before the switch.
\<close>

theorem switch_clears_timeline_only:
  "messages (on_select_session newId st) = []
   \<and> isTyping (on_select_session newId st) = isTyping st"
  by (simp add: on_select_session_unfold commit_fields)

theorem switch_clears_timeline_only_witness:
  "messages session_ping \<noteq> []
   \<and> messages (on_select_session (js ''bob'') session_ping) = []
   \<and> isTyping (on_select_session (js ''bob'') session_ping) = JBool True"
proof -
  have a: "messages session_ping \<noteq> []" by code_simp
  have b: "isTyping session_ping = JBool True" by code_simp
  show ?thesis
    using switch_clears_timeline_only [of "js ''bob''" session_ping] a b by simp
qed

text \<open>
  C9, as stated: the new identity is the preferred id when that is non-empty after
  trimming. It fails for the preferred id \<^verbatim>\<open>"  bob "\<close>: the identity becomes
  \<^verbatim>\<open>"bob"\<close>, not the text that was entered.
\<close>

theorem create_session_trim_counterexample:
  "newUserId (on_new_user_id_change (js ''  bob '') session_ping) = js ''  bob ''
   \<and> userId (on_create_session demo_env (on_new_user_id_change (js ''  bob '') session_ping))
       = js ''bob''"
  by code_simp

text \<open>
  C9, amended: \<^verbatim>\<open>handleNewSession\<close> takes as the new identity the preferred id with
  the white space at both ends removed when that is non-empty, and otherwise
  \<^verbatim>\<open>web_\<close> followed by up to nine characters of a random base-36 text; it then does
  what \<^verbatim>\<open>switchSession\<close> does with that identity, and empties the preferred id.
\<close>

theorem create_session_identity:
  "userId (on_create_session e st) =
     (if trim (newUserId st) \<noteq> [] then trim (newUserId st)
      else js ''web_'' @ substr 2 9 (math_random e))
   \<and> on_create_session e st =
       (on_select_session
          (if trim (newUserId st) \<noteq> [] then trim (newUserId st)
           else js ''web_'' @ substr 2 9 (math_random e)) st)
       \<lparr>newUserId := []\<rparr>"
proof -
  let ?id = "if trim (newUserId st) \<noteq> [] then trim (newUserId st)
             else js ''web_'' @ substr 2 9 (math_random e)"
  have h: "handleNewSession e st = switchSession ?id @ [SetNewUserId []]"
    by (simp add: handleNewSession_def random_id_def Let_def)
  have r: "on_create_session e st = (on_select_session ?id st)\<lparr>newUserId := []\<rparr>"
    by (simp add: on_create_session_def h on_select_session_def run_handler_def handler_returned_def
        switchSession_def commit_newUserId)
  have u: "userId (on_select_session ?id st) = ?id"
    by (simp add: on_select_session_unfold commit_def userId_effect_def run_connect_fields
        cleanup_fields)
  show ?thesis using r u by simp
qed

theorem create_session_identity_witness:
  "userId (on_create_session demo_env (on_new_user_id_change (js '' alice'') session_ping))
     = js ''alice''
   \<and> userId (on_create_session (demo_env\<lparr>math_random := js ''0.k3j5h2g9x1ab''\<rparr>)
        (on_new_user_id_change (js ''  '') session_ping)) = js ''web_k3j5h2g9x''"
proof -
  have a: "trim (newUserId (on_new_user_id_change (js '' alice'') session_ping)) = js ''alice''"
    "js ''alice'' \<noteq> []"
    by code_simp+
  have b: "trim (newUserId (on_new_user_id_change (js ''  '') session_ping)) = []"
    "js ''web_'' @ substr 2 9 (math_random (demo_env\<lparr>math_random := js ''0.k3j5h2g9x1ab''\<rparr>))
       = js ''web_k3j5h2g9x''"
    by code_simp+
  show ?thesis
    using create_session_identity
        [of demo_env "on_new_user_id_change (js '' alice'') session_ping", THEN conjunct1]
      create_session_identity
        [of "demo_env\<lparr>math_random := js ''0.k3j5h2g9x1ab''\<rparr>"
          "on_new_user_id_change (js ''  '') session_ping", THEN conjunct1]
      a b
    by simp
qed

section \<open>Sending a message\<close>

text \<open>
  C5, as stated: the entry with the submitted content is appended first, the frame
  is sent after it. It fails for the submitted text \<^verbatim>\<open>"  hello "\<close> in the open
  session: when \<^verbatim>\<open>sendMessage\<close> returns, the frame is sent and the timeline is
  still empty; the entry is there only after the render, and entry and frame carry
  \<^verbatim>\<open>"hello"\<close>, not the text that was submitted.
\<close>

theorem send_order_and_trim_counterexample:
  \<open>input (on_input_change (js ''  hello '') session_open) = js ''  hello ''
   \<and> map_option sent
        (current_socket (on_send_returned demo_env (on_input_change (js ''  hello '') session_open)))
       = Some [js ''{"type":"message","content":"hello"}'']
   \<and> messages (on_send_returned demo_env (on_input_change (js ''  hello '') session_open)) = []
   \<and> map content (messages (on_send demo_env (on_input_change (js ''  hello '') session_open)))
       = [JStr (js ''hello'')]\<close>
  by code_simp

text \<open>
  C5, amended: when the submitted text is non-empty after trimming and the socket
  of \<^verbatim>\<open>wsRef\<close> is open, \<^verbatim>\<open>sendMessage\<close> sends the message action with the trimmed
  text at once: when it returns, the frame is the last one sent on the socket and
  the timeline and the typing flag are still what they were. Its queued updates are
  applied after that, for the next render: one entry with sender \<^verbatim>\<open>user\<close> and the
  trimmed text as content is appended at the end of the timeline, the input is
  emptied and the typing flag is set to true. So the frame is sent before the entry
  is in the timeline.
\<close>

theorem send_transmits_then_appends:
  assumes "trim (input st) \<noteq> []" and "channel_open st"
  shows "map_option sent (current_socket (on_send_returned e st)) =
             map_option (\<lambda>ws. sent ws @ [message_frame (trim (input st))]) (current_socket st)
         \<and> messages (on_send_returned e st) = messages st
         \<and> isTyping (on_send_returned e st) = isTyping st
         \<and> messages (on_send e st) =
             messages st @
               [\<lparr>msg_id = new_id e, sender = JStr (js ''user''),
                 content = JStr (trim (input st)), timestamp = DateAt (new_date e)\<rparr>]
         \<and> map_option sent (current_socket (on_send e st)) =
             map_option (\<lambda>ws. sent ws @ [message_frame (trim (input st))]) (current_socket st)
         \<and> input (on_send e st) = []
         \<and> isTyping (on_send e st) = JBool True"
proof (intro conjI)
  note q = on_send_returned_unfold [OF assms, of e]
  note r = on_send_unfold [OF assms, of e]
  show "map_option sent (current_socket (on_send_returned e st)) =
          map_option (\<lambda>ws. sent ws @ [message_frame (trim (input st))]) (current_socket st)"
    using current_socket_ws_send [OF assms(2)] by (simp add: q)
  show "messages (on_send_returned e st) = messages st"
    by (simp add: q ws_send_fields)
  show "isTyping (on_send_returned e st) = isTyping st"
    by (simp add: q ws_send_fields)
  show "messages (on_send e st) =
             messages st @
               [\<lparr>msg_id = new_id e, sender = JStr (js ''user''),
                 content = JStr (trim (input st)), timestamp = DateAt (new_date e)\<rparr>]"
    by (simp add: r)
  show "map_option sent (current_socket (on_send e st)) =
          map_option (\<lambda>ws. sent ws @ [message_frame (trim (input st))]) (current_socket st)"
    using current_socket_ws_send [OF assms(2)]
    by (simp add: r channel_open_messages_update)
  show "input (on_send e st) = []"
    by (simp add: r)
  show "isTyping (on_send e st) = JBool True"
    by (simp add: r)
qed

theorem send_transmits_then_appends_witness:
  \<open>trim (input (on_input_change (js ''are you up? '') session_ping)) \<noteq> []
   \<and> channel_open (on_input_change (js ''are you up? '') session_ping)
   \<and> map_option sent
        (current_socket
           (on_send_returned demo_env (on_input_change (js ''are you up? '') session_ping)))
       = Some [js ''{"type":"message","content":"ping"}'',
               js ''{"type":"message","content":"are you up?"}'']
   \<and> map content
        (messages (on_send_returned demo_env (on_input_change (js ''are you up? '') session_ping)))
       = [JStr (js ''ping'')]
   \<and> map content
        (messages (on_send demo_env (on_input_change (js ''are you up? '') session_ping)))
       = [JStr (js ''ping''), JStr (js ''are you up?'')]
   \<and> isTyping (on_send demo_env (on_input_change (js ''are you up? '') session_ping))
       = JBool True\<close>
proof -
  let ?st = "on_input_change (js ''are you up? '') session_ping"
  have t: "trim (input ?st) = js ''are you up?''" by code_simp
  have n: "js ''are you up?'' \<noteq> []" by code_simp
  have o: "channel_open ?st" by code_simp
  have m: "map content (messages ?st) = [JStr (js ''ping'')]" by code_simp
  have s: \<open>map_option sent (current_socket ?st) = Some [js ''{"type":"message","content":"ping"}'']\<close>
    by code_simp
  have f: \<open>message_frame (js ''are you up?'') = js ''{"type":"message","content":"are you up?"}''\<close>
    by code_simp
  from t n have h: "trim (input ?st) \<noteq> []" by simp
  show ?thesis
    using send_transmits_then_appends [OF h o, of demo_env] t n o m s f
    by (simp add: option.map_sel)
qed

text \<open>
  C6. When the socket of \<^verbatim>\<open>wsRef\<close> is not open (connecting, closing, closed or
  absent), or the input is empty after trimming, \<^verbatim>\<open>sendMessage\<close> calls no setter and
  sends nothing, and the whole state, the timeline, the typing flag, the frames
  sent and the uncaught exceptions among it, is as before.
\<close>

theorem send_is_noop_unless_open_and_nonblank:
  assumes "trim (input st) = [] \<or> \<not> channel_open st"
  shows "sendMessage e st = [] \<and> on_send e st = st"
  using assms by (auto simp: on_send_def sendMessage_def run_handler_def handler_returned_def Let_def commit_same)

theorem send_is_noop_unless_open_and_nonblank_witness:
  "trim (input (on_input_change (js ''   '') session_open)) = []
   \<and> on_send demo_env (on_input_change (js ''   '') session_open)
       = on_input_change (js ''   '') session_open
   \<and> \<not> channel_open (on_input_change (js ''again'') session_closed)
   \<and> on_send demo_env (on_input_change (js ''again'') session_closed)
       = on_input_change (js ''again'') session_closed"
proof -
  have a: "trim (input (on_input_change (js ''   '') session_open)) = []" by code_simp
  have b: "\<not> channel_open (on_input_change (js ''again'') session_closed)" by code_simp
  show ?thesis
    using send_is_noop_unless_open_and_nonblank
        [of "on_input_change (js ''   '') session_open" demo_env]
      send_is_noop_unless_open_and_nonblank
        [of "on_input_change (js ''again'') session_closed" demo_env]
      a b
    by simp
qed

section \<open>Dispatch of inbound events\<close>

text \<open>
  C7, as stated: every message event appends one entry and sets the typing flag to
  false. It fails for the message event with the empty content: no entry is
  appended and the typing flag stays true.
\<close>

theorem message_without_content_counterexample:
  \<open>map content
     (messages (on_message demo_env (js ''{"type":"message","sender":"assistant","content":""}'')
        session_ping)) = [JStr (js ''ping'')]
   \<and> isTyping (on_message demo_env (js ''{"type":"message","sender":"assistant","content":""}'')
        session_ping) = JBool True\<close>
  by code_simp

text \<open>
  C7, amended: for every frame that parses to a value other than \<^verbatim>\<open>null\<close>: a
  message event with non-empty content appends one entry whose sender is the
  declared sender, or \<^verbatim>\<open>assistant\<close> when none is declared, and sets the typing flag
  to false; a typing event leaves the timeline alone and sets the typing flag to
  \<^verbatim>\<open>data.typing || false\<close>, which is the payload when that is a boolean and false
  when it is missing; a tool event with non-empty content appends one entry with
  sender \<^verbatim>\<open>tool\<close> and leaves the typing flag alone; an event of any other kind
  changes nothing.
\<close>

theorem on_message_dispatch:
  assumes "JSON_parse d = Inr data" and "data \<noteq> JNull"
  shows
    "(get_prop data (js ''type'') = JStr (js ''message'') \<and> truthy (get_prop data (js ''content''))
        \<longrightarrow> messages (on_message e d st) =
              messages st @
                [\<lparr>msg_id = new_id e,
                  sender = js_or (get_prop data (js ''sender'')) (JStr (js ''assistant'')),
                  content = get_prop data (js ''content''),
                  timestamp = frame_date e data\<rparr>]
            \<and> isTyping (on_message e d st) = JBool False)
     \<and> (get_prop data (js ''type'') = JStr (js ''typing'')
        \<longrightarrow> messages (on_message e d st) = messages st
            \<and> isTyping (on_message e d st) = js_or (get_prop data (js ''typing'')) (JBool False))
     \<and> (get_prop data (js ''type'') = JStr (js ''tool'') \<and> truthy (get_prop data (js ''content''))
        \<longrightarrow> messages (on_message e d st) =
              messages st @
                [\<lparr>msg_id = new_id e,
                  sender = JStr (js ''tool''),
                  content = get_prop data (js ''content''),
                  timestamp = frame_date e data\<rparr>]
            \<and> isTyping (on_message e d st) = isTyping st)
     \<and> (get_prop data (js ''type'') \<noteq> JStr (js ''message'')
        \<and> get_prop data (js ''type'') \<noteq> JStr (js ''typing'')
        \<and> get_prop data (js ''type'') \<noteq> JStr (js ''tool'')
        \<longrightarrow> on_message e d st = st)"
  by (simp add: on_message_def on_message_parsed [OF assms] run_handler_def handler_returned_def commit_same
      kinds_distinct)

theorem on_message_dispatch_witness:
  \<open>map (\<lambda>m. (sender m, content m))
      (messages (on_message demo_env (js ''{"type":"message","sender":"system","content":"pong"}'')
         session_ping))
     = [(JStr (js ''user''), JStr (js ''ping'')), (JStr (js ''system''), JStr (js ''pong''))]
   \<and> isTyping (on_message demo_env (js ''{"type":"message","sender":"system","content":"pong"}'')
         session_ping) = JBool False
   \<and> isTyping (on_message demo_env (js ''{"type":"typing","typing":true}'') session_open)
       = JBool True
   \<and> map (\<lambda>m. (sender m, content m))
      (messages (on_message demo_env (js ''{"type":"tool","content":"ls"}'') session_ping))
     = [(JStr (js ''user''), JStr (js ''ping'')), (JStr (js ''tool''), JStr (js ''ls''))]
   \<and> isTyping (on_message demo_env (js ''{"type":"tool","content":"ls"}'') session_ping)
       = JBool True
   \<and> on_message demo_env (js ''{"type":"status","content":"up"}'') session_ping = session_ping\<close>
proof -
  let ?M = \<open>js ''{"type":"message","sender":"system","content":"pong"}''\<close>
  let ?Y = \<open>js ''{"type":"typing","typing":true}''\<close>
  let ?T = \<open>js ''{"type":"tool","content":"ls"}''\<close>
  let ?S = \<open>js ''{"type":"status","content":"up"}''\<close>
  let ?m = "JObj [(js ''type'', JStr (js ''message'')), (js ''sender'', JStr (js ''system'')),
                  (js ''content'', JStr (js ''pong''))]"
  let ?y = "JObj [(js ''type'', JStr (js ''typing'')), (js ''typing'', JBool True)]"
  let ?t = "JObj [(js ''type'', JStr (js ''tool'')), (js ''content'', JStr (js ''ls''))]"
  let ?s = "JObj [(js ''type'', JStr (js ''status'')), (js ''content'', JStr (js ''up''))]"
  have pm: "JSON_parse ?M = Inr ?m" by code_simp
  have py: "JSON_parse ?Y = Inr ?y" by code_simp
  have pt: "JSON_parse ?T = Inr ?t" by code_simp
  have ps: "JSON_parse ?S = Inr ?s" by code_simp
  have m: "get_prop ?m (js ''type'') = JStr (js ''message'')"
    "truthy (get_prop ?m (js ''content''))"
    "get_prop ?m (js ''content'') = JStr (js ''pong'')"
    "js_or (get_prop ?m (js ''sender'')) (JStr (js ''assistant'')) = JStr (js ''system'')"
    by code_simp+
  have y: "get_prop ?y (js ''type'') = JStr (js ''typing'')"
    "js_or (get_prop ?y (js ''typing'')) (JBool False) = JBool True"
    by code_simp+
  have t: "get_prop ?t (js ''type'') = JStr (js ''tool'')"
    "truthy (get_prop ?t (js ''content''))"
    "get_prop ?t (js ''content'') = JStr (js ''ls'')"
    by code_simp+
  have s: "get_prop ?s (js ''type'') \<noteq> JStr (js ''message'')"
    "get_prop ?s (js ''type'') \<noteq> JStr (js ''typing'')"
    "get_prop ?s (js ''type'') \<noteq> JStr (js ''tool'')"
    by code_simp+
  have p: "map (\<lambda>m. (sender m, content m)) (messages session_ping)
           = [(JStr (js ''user''), JStr (js ''ping''))]"
    "isTyping session_ping = JBool True"
    by code_simp+
  show ?thesis
    using on_message_dispatch [OF pm, of demo_env session_ping]
      on_message_dispatch [OF py, of demo_env session_open]
      on_message_dispatch [OF pt, of demo_env session_ping]
      on_message_dispatch [OF ps, of demo_env session_ping]
      m y t s p
    by simp
qed

text \<open>
  C10. A frame of type \<^verbatim>\<open>message\<close> or \<^verbatim>\<open>tool\<close> whose \<^verbatim>\<open>content\<close> is missing or is
  the empty string makes the handler call no setter: the state is as before, no
  entry is appended and the typing flag keeps its value, so that a message event
  with empty content does not clear it.
\<close>

theorem contentless_frame_is_ignored:
  assumes "JSON_parse d = Inr data"
    and "get_prop data (js ''type'') = JStr (js ''message'')
         \<or> get_prop data (js ''type'') = JStr (js ''tool'')"
    and "get_prop data (js ''content'') = JUndefined \<or> get_prop data (js ''content'') = JStr []"
  shows "ws_onmessage e d = Inr [] \<and> on_message e d st = st"
proof -
  from assms(2) have n: "data \<noteq> JNull" by auto
  from assms(3) have c: "\<not> truthy (get_prop data (js ''content''))" by auto
  have "ws_onmessage e d = Inr []"
    using assms(2) c by (auto simp: on_message_parsed [OF assms(1) n] kinds_distinct)
  then show ?thesis
    by (simp add: on_message_def run_handler_def handler_returned_def commit_same)
qed

theorem contentless_frame_is_ignored_witness:
  \<open>on_message demo_env (js ''{"type":"message","content":""}'') session_ping = session_ping
   \<and> isTyping session_ping = JBool True
   \<and> on_message demo_env (js ''{"type":"tool","timestamp":"2024-01-01T00:00:00Z"}'') session_ping
       = session_ping\<close>
proof -
  let ?M = \<open>js ''{"type":"message","content":""}''\<close>
  let ?T = \<open>js ''{"type":"tool","timestamp":"2024-01-01T00:00:00Z"}''\<close>
  let ?m = "JObj [(js ''type'', JStr (js ''message'')), (js ''content'', JStr [])]"
  let ?t = "JObj [(js ''type'', JStr (js ''tool'')),
                  (js ''timestamp'', JStr (js ''2024-01-01T00:00:00Z''))]"
  have pm: "JSON_parse ?M = Inr ?m" by code_simp
  have pt: "JSON_parse ?T = Inr ?t" by code_simp
  have km: "get_prop ?m (js ''type'') = JStr (js ''message'')
            \<or> get_prop ?m (js ''type'') = JStr (js ''tool'')" by code_simp
  have kt: "get_prop ?t (js ''type'') = JStr (js ''message'')
            \<or> get_prop ?t (js ''type'') = JStr (js ''tool'')" by code_simp
  have cm: "get_prop ?m (js ''content'') = JUndefined \<or> get_prop ?m (js ''content'') = JStr []"
    by code_simp
  have ct: "get_prop ?t (js ''content'') = JUndefined \<or> get_prop ?t (js ''content'') = JStr []"
    by code_simp
  have p: "isTyping session_ping = JBool True" by code_simp
  show ?thesis
    using contentless_frame_is_ignored [OF pm km cm, of demo_env session_ping]
      contentless_frame_is_ignored [OF pt kt ct, of demo_env session_ping] p
    by simp
qed

end
